theory Spec2Isabelle
  imports Main
begin

section \<open>Strings of the infrastructure description\<close>

text \<open>
  A string handed to the provisioning library is either plain text or carries values that
  only exist at deployment: a value imported from another stack by its export key
  (\<open>Fn.importValue\<close>), or an attribute of a declared resource. A string is a list of
  fragments; a template literal \<open>`a${x}b`\<close> is the concatenation of its parts.
\<close>

datatype frag =
    Lit string
  | ImportValue string
  | Attr string string

type_synonym cdk_string = "frag list"

definition Fn_importValue :: "string \<Rightarrow> cdk_string" where
  "Fn_importValue sharedValueToImport = [ImportValue sharedValueToImport]"

fun is_import :: "frag \<Rightarrow> bool" where
  "is_import (ImportValue k) = True"
| "is_import (Lit s) = False"
| "is_import (Attr r a) = False"

fun is_literal :: "frag \<Rightarrow> bool" where
  "is_literal (Lit s) = True"
| "is_literal (ImportValue k) = False"
| "is_literal (Attr r a) = False"

section \<open>Resource Namer\<close>

text \<open>
  Modelled from the spec: \<open>identifyResource\<close> of \<open>lib/config-util\<close> is imported by all
  three source files but its file is not part of the sources at hand. The specification
  gives the derived identifier as prefix, separator, logical name, and the example
  \<open>cdk-web-static\<close>, \<open>bucket-name\<close> to \<open>cdk-web-static-bucket-name\<close>, which fixes the
  separator as a single hyphen.
\<close>

definition identifyResource :: "string \<Rightarrow> string \<Rightarrow> string" where
  "identifyResource prefix logicalName = prefix @ ''-'' @ logicalName"

section \<open>Stack properties\<close>

record Environment =
  account :: "string option"
  region :: "string option"

record StackProps =
  env :: "Environment option"

section \<open>Hosting stack (lib/static-site.stack)\<close>

record StaticSiteProps = StackProps +
  resourcePrefix :: string
  hostedZoneName :: string
  domainName :: string
  includeWWW :: bool
  siteSourcePath :: string
  staticSiteBucketNameOutputId :: string
  staticSiteDistributionIdOutputId :: string

datatype Effect = ALLOW | DENY

text \<open>
  Who a statement grants to: a principal named in a resource policy, or, for a statement
  of a role's own policy, the role it is attached to (\<open>ProjectRole\<close>, the execution role
  of the build project with that construct id).
\<close>

datatype Principal =
    CanonicalUserPrincipal cdk_string
  | ArnPrincipal cdk_string
  | AnyPrincipal
  | ProjectRole string

text \<open>
  A policy statement as the source writes it. The hosting stack gives no effect; the
  library's default for an omitted effect is ALLOW (\<open>effect_of\<close>).
\<close>

record PolicyStatement =
  effect :: "Effect option"
  actions :: "string list"
  resources :: "cdk_string list"
  principals :: "Principal list"

definition effect_of :: "PolicyStatement \<Rightarrow> Effect" where
  "effect_of s = (case effect s of None \<Rightarrow> ALLOW | Some e \<Rightarrow> e)"

record HostedZone =
  hz_id :: string
  hz_domainName :: string

record OriginAccessIdentity =
  oai_id :: string
  oai_comment :: string

definition cloudFrontOriginAccessIdentityS3CanonicalUserId :: "OriginAccessIdentity \<Rightarrow> cdk_string" where
  "cloudFrontOriginAccessIdentityS3CanonicalUserId oai = [Attr (oai_id oai) ''S3CanonicalUserId'']"

datatype BlockPublicAccess = BLOCK_ALL | BLOCK_ACLS

datatype RemovalPolicy = DESTROY | RETAIN | SNAPSHOT

text \<open>
  The bucket object: the properties it was constructed with and the two parts of its
  resource policy. \<open>constructorPolicy\<close> holds what the library's bucket constructor puts
  on the policy by itself; \<open>resourcePolicy\<close> holds the statements the stack adds
  afterwards through \<open>addToResourcePolicy\<close>. The policy document the bucket ends up with
  is the first followed by the second (\<open>bucketPolicy\<close>). Reading \<open>siteBucket.bucketName\<close>
  gives the name the bucket was declared with.
\<close>

record Bucket =
  bucket_id :: string
  bucketName :: string
  websiteIndexDocument :: string
  websiteErrorDocument :: string
  publicReadAccess :: bool
  blockPublicAccess :: BlockPublicAccess
  removalPolicy :: RemovalPolicy
  autoDeleteObjects :: bool
  constructorPolicy :: "PolicyStatement list"
  resourcePolicy :: "PolicyStatement list"

definition bucketArn :: "Bucket \<Rightarrow> cdk_string" where
  "bucketArn b = [Attr (bucket_id b) ''Arn'']"

definition arnForObjects :: "Bucket \<Rightarrow> string \<Rightarrow> cdk_string" where
  "arnForObjects b keyPattern = [Attr (bucket_id b) ''Arn'', Lit (''/'' @ keyPattern)]"

text \<open>
  The library's bucket constructor: a bucket declared with \<open>autoDeleteObjects: true\<close>
  gets a statement on its resource policy that lets the role of the library's
  object-deleting custom resource list the bucket and delete its objects.
\<close>

definition autoDeleteStatement :: "Bucket \<Rightarrow> PolicyStatement" where
  "autoDeleteStatement b =
     \<lparr>effect = None,
      actions = [''s3:GetBucket*'', ''s3:List*'', ''s3:DeleteObject*''],
      resources = [bucketArn b, arnForObjects b ''*''],
      principals = [ArnPrincipal
         [Attr ''Custom::S3AutoDeleteObjectsCustomResourceProvider'' ''RoleArn'']]\<rparr>"

definition newBucket :: "Bucket \<Rightarrow> Bucket" where
  "newBucket b =
     b\<lparr>constructorPolicy := (if autoDeleteObjects b then [autoDeleteStatement b] else [])\<rparr>"

definition bucketPolicy :: "Bucket \<Rightarrow> PolicyStatement list" where
  "bucketPolicy b = constructorPolicy b @ resourcePolicy b"

definition addToResourcePolicy :: "Bucket \<Rightarrow> PolicyStatement \<Rightarrow> Bucket" where
  "addToResourcePolicy b permission = b\<lparr>resourcePolicy := resourcePolicy b @ [permission]\<rparr>"

record CfnOutput =
  out_id :: string
  out_value :: cdk_string
  exportName :: string

record DnsValidatedCertificate =
  cert_id :: string
  cert_domainName :: string
  cert_hostedZone :: HostedZone
  cert_region :: string
  subjectAlternativeNames :: "string list"

definition certificateArn_of :: "DnsValidatedCertificate \<Rightarrow> cdk_string" where
  "certificateArn_of c = [Attr (cert_id c) ''Arn'']"

datatype SSLMethod = SNI | VIP

datatype SecurityPolicyProtocol =
    SSL_V3 | TLS_V1 | TLS_V1_2016 | TLS_V1_1_2016 | TLS_V1_2_2018 | TLS_V1_2_2019 | TLS_V1_2_2021

record ViewerCertificate =
  certificateArn :: cdk_string
  sslMethod :: SSLMethod
  securityPolicy :: SecurityPolicyProtocol
  aliases :: "string list"

datatype CloudFrontAllowedMethods = GET_HEAD | GET_HEAD_OPTIONS | ALL'

record Behavior =
  isDefaultBehavior :: bool
  compress :: bool
  allowedMethods :: CloudFrontAllowedMethods

record S3OriginConfig =
  s3BucketSource :: Bucket
  originAccessIdentity :: OriginAccessIdentity

record SourceConfiguration =
  s3OriginSource :: S3OriginConfig
  behaviors :: "Behavior list"

record CloudFrontWebDistribution =
  dist_id :: string
  viewerCertificate :: ViewerCertificate
  originConfigs :: "SourceConfiguration list"

definition distributionId_of :: "CloudFrontWebDistribution \<Rightarrow> cdk_string" where
  "distributionId_of d = [Attr (dist_id d) ''DistributionId'']"

datatype RecordTarget = CloudFrontTarget string

record ARecord =
  arec_id :: string
  recordName :: string
  target :: RecordTarget
  zone :: HostedZone

record BucketDeployment =
  dep_id :: string
  sources :: "string list"
  destinationBucket :: Bucket
  dep_distribution :: string
  distributionPaths :: "string list"

text \<open>
  A resource declared in the hosting stack; the stack is the list of them in the order
  the constructor declares them. The model holds what the constructor declares, and of
  what the provisioning library adds on its own the statement it puts on the bucket's
  policy; the library's validations and its further resources are external to these
  sources.
\<close>

datatype site_construct =
    CHostedZone HostedZone
  | COriginAccessIdentity OriginAccessIdentity
  | CBucket Bucket
  | COutput CfnOutput
  | CCertificate DnsValidatedCertificate
  | CDistribution CloudFrontWebDistribution
  | CARecord ARecord
  | CBucketDeployment BucketDeployment

definition StaticSiteStack :: "string \<Rightarrow> StaticSiteProps \<Rightarrow> site_construct list" where
  "StaticSiteStack id' props =
    (let zone = \<lparr>hz_id = identifyResource (resourcePrefix props) ''hosted-zone'',
                  hz_domainName = hostedZoneName props\<rparr>;
         siteDomain = domainName props;
         fullSiteDomain = ''www.'' @ siteDomain;
         cloudfrontOAI = \<lparr>oai_id = identifyResource (resourcePrefix props) ''cloudfront-OAI'',
                           oai_comment = ''OAI for '' @ id'\<rparr>;
         siteBucket0 = newBucket
                         \<lparr>bucket_id = identifyResource (resourcePrefix props) ''site-bucket'',
                         bucketName = siteDomain,
                         websiteIndexDocument = ''index.html'',
                         websiteErrorDocument = ''error.html'',
                         publicReadAccess = False,
                         blockPublicAccess = BLOCK_ALL,
                         removalPolicy = DESTROY,
                         autoDeleteObjects = True,
                         constructorPolicy = [],
                         resourcePolicy = []\<rparr>;
         siteBucket = addToResourcePolicy siteBucket0
                        \<lparr>effect = None,
                         actions = [''s3:GetObject''],
                         resources = [arnForObjects siteBucket0 ''*''],
                         principals = [CanonicalUserPrincipal
                            (cloudFrontOriginAccessIdentityS3CanonicalUserId cloudfrontOAI)]\<rparr>;
         bucketOutput = \<lparr>out_id = staticSiteBucketNameOutputId props,
                          out_value = [Lit (bucketName siteBucket)],
                          exportName = staticSiteBucketNameOutputId props\<rparr>;
         certificate = \<lparr>cert_id = identifyResource (resourcePrefix props) ''site-certificate'',
                         cert_domainName = siteDomain,
                         cert_hostedZone = zone,
                         cert_region = ''us-east-1'',
                         subjectAlternativeNames =
                           (if includeWWW props then [fullSiteDomain] else [])\<rparr>;
         viewerCert = \<lparr>certificateArn = certificateArn_of certificate,
                        sslMethod = SNI,
                        securityPolicy = TLS_V1_2_2021,
                        aliases = (if includeWWW props then [siteDomain, fullSiteDomain]
                                   else [siteDomain])\<rparr>;
         distribution = \<lparr>dist_id = identifyResource (resourcePrefix props) ''site-distribution'',
                          viewerCertificate = viewerCert,
                          originConfigs =
                            [\<lparr>s3OriginSource = \<lparr>s3BucketSource = siteBucket,
                                                  originAccessIdentity = cloudfrontOAI\<rparr>,
                              behaviors = [\<lparr>isDefaultBehavior = True,
                                            compress = True,
                                            allowedMethods = GET_HEAD_OPTIONS\<rparr>]\<rparr>]\<rparr>;
         distributionOutput = \<lparr>out_id = staticSiteDistributionIdOutputId props,
                                out_value = distributionId_of distribution,
                                exportName = staticSiteDistributionIdOutputId props\<rparr>;
         record01 = \<lparr>arec_id = identifyResource (resourcePrefix props) ''site-alias-record-01'',
                      recordName = siteDomain,
                      target = CloudFrontTarget (dist_id distribution),
                      zone = zone\<rparr>;
         record02 = \<lparr>arec_id = identifyResource (resourcePrefix props) ''site-alias-record-02'',
                      recordName = fullSiteDomain,
                      target = CloudFrontTarget (dist_id distribution),
                      zone = zone\<rparr>;
         deployment = \<lparr>dep_id = identifyResource (resourcePrefix props) ''bucket-deployment'',
                        sources = [siteSourcePath props],
                        destinationBucket = siteBucket,
                        dep_distribution = dist_id distribution,
                        distributionPaths = [''/*'']\<rparr>
     in [CHostedZone zone, COriginAccessIdentity cloudfrontOAI, CBucket siteBucket,
         COutput bucketOutput, CCertificate certificate, CDistribution distribution,
         COutput distributionOutput, CARecord record01]
        @ (if includeWWW props then [CARecord record02] else [])
        @ [CBucketDeployment deployment])"

section \<open>Pipeline stack (lib/ci-cd.stack)\<close>

record CiCdProps = StackProps +
  resourcePrefix :: string
  distributionId :: cdk_string
  bucket :: cdk_string
  repo :: string
  repoOwner :: string
  repoBranch :: string
  githubTokenSecretId :: string
  buildAlertEmail :: string

text \<open>\<open>SecretValue.secretsManager(secretId, {jsonField})\<close>: a reference to a stored
  secret, never its text.\<close>

datatype SecretValue = SecretsManager string string

record Artifact =
  artifactName :: string

record GitHubSourceAction =
  gh_actionName :: string
  gh_owner :: string
  gh_repo :: string
  gh_branch :: string
  oauthToken :: SecretValue
  gh_output :: Artifact

record Phase =
  runtime_versions :: "(string \<times> string) list"
  commands :: "cdk_string list"

record BuildSpec =
  version :: string
  install :: Phase
  build :: Phase
  post_build :: Phase

datatype LinuxBuildImage = STANDARD_5_0

record Topic =
  topic_id :: string
  topicName :: string
  displayName :: string

datatype SubscriptionProtocol = EMAIL | SMS | HTTPS

record Subscription =
  sub_id :: string
  protocol :: SubscriptionProtocol
  endpoint :: string
  sub_topic :: Topic

datatype RuleTarget = SnsTopic Topic

datatype BuildEvent = BuildFailed | BuildSucceeded | BuildStarted

record Rule =
  rule_id :: string
  rule_event :: BuildEvent
  rule_target :: RuleTarget

text \<open>
  The build project: what it was constructed with, the policy of its execution role and
  the event rules registered on it. A project constructed without a role gets a new one,
  so the source's optional call \<open>role?.addToPrincipalPolicy\<close> always runs. The role's
  policy holds every statement in the order it is attached: the two the library's project
  constructor attaches (writing the build's logs, creating test reports), then those the
  source adds, then the three the library attaches when the build action joins a pipeline
  (access to the pipeline's artifact bucket and to its encryption key).
\<close>

record PipelineProject =
  proj_id :: string
  buildSpec :: BuildSpec
  buildImage :: LinuxBuildImage
  rolePolicy :: "PolicyStatement list"
  eventRules :: "Rule list"

definition projectConstructorPolicy :: "string \<Rightarrow> PolicyStatement list" where
  "projectConstructorPolicy pid =
     [\<lparr>effect = None,
       actions = [''logs:CreateLogGroup'', ''logs:CreateLogStream'', ''logs:PutLogEvents''],
       resources = [[Attr pid ''LogGroupArn''], [Attr pid ''LogGroupArn'', Lit '':*'']],
       principals = []\<rparr>,
      \<lparr>effect = None,
       actions = [''codebuild:CreateReportGroup'', ''codebuild:CreateReport'',
                  ''codebuild:UpdateReport'', ''codebuild:BatchPutTestCases'',
                  ''codebuild:BatchPutCodeCoverages''],
       resources = [[Attr pid ''ReportGroupArn'', Lit ''-*'']],
       principals = []\<rparr>]"

definition artifactAccessPolicy :: "string \<Rightarrow> PolicyStatement list" where
  "artifactAccessPolicy pipelineId =
     [\<lparr>effect = None,
       actions = [''s3:GetObject*'', ''s3:GetBucket*'', ''s3:List*'', ''s3:DeleteObject*'',
                  ''s3:PutObject'', ''s3:PutObjectLegalHold'', ''s3:PutObjectRetention'',
                  ''s3:PutObjectTagging'', ''s3:PutObjectVersionTagging'', ''s3:Abort*''],
       resources = [[Attr pipelineId ''ArtifactsBucketArn''],
                    [Attr pipelineId ''ArtifactsBucketArn'', Lit ''/*'']],
       principals = []\<rparr>,
      \<lparr>effect = None,
       actions = [''kms:Decrypt'', ''kms:DescribeKey'', ''kms:Encrypt'', ''kms:ReEncrypt*'',
                  ''kms:GenerateDataKey*''],
       resources = [[Attr pipelineId ''ArtifactsBucketEncryptionKeyArn'']],
       principals = []\<rparr>,
      \<lparr>effect = None,
       actions = [''kms:Decrypt'', ''kms:Encrypt'', ''kms:ReEncrypt*'', ''kms:GenerateDataKey*''],
       resources = [[Attr pipelineId ''ArtifactsBucketEncryptionKeyArn'']],
       principals = []\<rparr>]"

definition addToPrincipalPolicy :: "PipelineProject \<Rightarrow> PolicyStatement \<Rightarrow> PipelineProject" where
  "addToPrincipalPolicy p statement = p\<lparr>rolePolicy := rolePolicy p @ [statement]\<rparr>"

definition onBuildFailed :: "PipelineProject \<Rightarrow> string \<Rightarrow> RuleTarget \<Rightarrow> PipelineProject" where
  "onBuildFailed p rid tgt =
     p\<lparr>eventRules := eventRules p @ [\<lparr>rule_id = rid, rule_event = BuildFailed, rule_target = tgt\<rparr>]\<rparr>"

record CodeBuildAction =
  cb_actionName :: string
  project :: PipelineProject
  cb_input :: Artifact

datatype Action =
    Source GitHubSourceAction
  | Build CodeBuildAction

record Stage =
  stageName :: string
  stage_actions :: "Action list"

record Pipeline =
  pipe_id :: string
  pipelineName :: string
  stages :: "Stage list"

datatype cicd_construct =
    CProject PipelineProject
  | CTopic Topic
  | CSubscription Subscription
  | CPipeline Pipeline

text \<open>
  Constructing the pipeline attaches its actions. For the build action the library grants
  the action's project access to the pipeline's artifacts; the project is one object,
  held both by the stack and by the action, so the stack's child with that construct id
  is updated as well.
\<close>

definition bindBuildAction :: "string \<Rightarrow> PipelineProject \<Rightarrow> PipelineProject" where
  "bindBuildAction pipelineId p = p\<lparr>rolePolicy := rolePolicy p @ artifactAccessPolicy pipelineId\<rparr>"

fun bindConstruct :: "string \<Rightarrow> string \<Rightarrow> cicd_construct \<Rightarrow> cicd_construct" where
  "bindConstruct pipelineId pid (CProject p) =
     (if proj_id p = pid then CProject (bindBuildAction pipelineId p) else CProject p)"
| "bindConstruct pipelineId pid (CTopic x) = CTopic x"
| "bindConstruct pipelineId pid (CSubscription x) = CSubscription x"
| "bindConstruct pipelineId pid (CPipeline x) = CPipeline x"

text \<open>
  \<open>createBuildProject\<close> declares the build project, the topic and the subscription as
  children of the stack and returns the project; the model returns the project together
  with the children it added, the project as it is when the method returns.
\<close>

definition createBuildProject ::
  "string \<Rightarrow> cdk_string \<Rightarrow> cdk_string \<Rightarrow> string \<Rightarrow> string
     \<Rightarrow> PipelineProject \<times> cicd_construct list" where
  \<open>createBuildProject resourcePrefix' distributionId' staticWebsiteBucket buildAlertEmail' account' =
    (let buildProject0 =
           \<lparr>proj_id = identifyResource resourcePrefix' ''build'',
            buildSpec =
              \<lparr>version = ''0.2'',
               install = \<lparr>runtime_versions = [(''nodejs'', ''latest'')],
                          commands = [[Lit ''npm install'']]\<rparr>,
               build = \<lparr>runtime_versions = [],
                        commands = [[Lit ''npm run build'']]\<rparr>,
               post_build = \<lparr>runtime_versions = [],
                  commands =
                    [[Lit ''aws s3 sync "dist" "s3://''] @ staticWebsiteBucket @ [Lit ''" --delete''],
                     [Lit ''aws cloudfront create-invalidation --distribution-id '']
                       @ distributionId' @ [Lit '' --paths "/*"'']]\<rparr>\<rparr>,
            buildImage = STANDARD_5_0,
            rolePolicy = projectConstructorPolicy (identifyResource resourcePrefix' ''build''),
            eventRules = []\<rparr>;
         codeBuildS3ListObjectsPolicy =
           \<lparr>effect = Some ALLOW,
            actions = [''s3:GetObject'', ''s3:GetBucketLocation'', ''s3:ListBucket'',
                       ''s3:PutObject'', ''s3:DeleteObject'', ''s3:PutObjectAcl''],
            resources = [[Lit ''arn:aws:s3:::''] @ staticWebsiteBucket,
                         [Lit ''arn:aws:s3:::''] @ staticWebsiteBucket @ [Lit ''/*'']],
            principals = []\<rparr>;
         buildProject1 = addToPrincipalPolicy buildProject0 codeBuildS3ListObjectsPolicy;
         codeBuildCreateInvalidationPolicy =
           \<lparr>effect = Some ALLOW,
            actions = [''cloudfront:CreateInvalidation''],
            resources = [[Lit (''arn:aws:cloudfront::'' @ account' @ '':distribution/'')]
                           @ distributionId'],
            principals = []\<rparr>;
         buildProject2 = addToPrincipalPolicy buildProject1 codeBuildCreateInvalidationPolicy;
         alertsTopic =
           \<lparr>topic_id = identifyResource resourcePrefix' ''notifications'',
            topicName = identifyResource resourcePrefix' ''notifications'',
            displayName = resourcePrefix' @ '' pipeline failures''\<rparr>;
         subscription =
           \<lparr>sub_id = identifyResource resourcePrefix' ''notifications-subscription'',
            protocol = EMAIL,
            endpoint = buildAlertEmail',
            sub_topic = alertsTopic\<rparr>;
         buildProject = onBuildFailed buildProject2
                          (identifyResource resourcePrefix' ''build-failed'') (SnsTopic alertsTopic)
     in (buildProject, [CProject buildProject, CTopic alertsTopic, CSubscription subscription]))\<close>

datatype error = TypeError

text \<open>
  The constructor reads \<open>props.env!.account!\<close>: the non-null assertions are erased at
  run time, so an absent \<open>env\<close> raises a TypeError and an absent account is rendered
  as the text \<open>undefined\<close> by the template literal.
\<close>

definition CiCdStack :: "string \<Rightarrow> CiCdProps \<Rightarrow> error + cicd_construct list" where
  "CiCdStack id' props =
    (let github_token = SecretsManager (githubTokenSecretId props) ''github-token'';
         sourceOutput = \<lparr>artifactName = ''SourceOutput''\<rparr>;
         sourceAction = \<lparr>gh_actionName = ''SOURCE'',
                          gh_owner = repoOwner props,
                          gh_repo = repo props,
                          gh_branch = repoBranch props,
                          oauthToken = github_token,
                          gh_output = sourceOutput\<rparr>
     in case env props of
          None \<Rightarrow> Inl TypeError
        | Some e \<Rightarrow>
           (let account' = (case account e of None \<Rightarrow> ''undefined'' | Some a \<Rightarrow> a);
                (webBuildProject, this) =
                   createBuildProject (resourcePrefix props) (distributionId props) (bucket props)
                     (buildAlertEmail props) account';
                buildAction = \<lparr>cb_actionName = ''BUILD_DEPLOY'',
                                project = webBuildProject,
                                cb_input = sourceOutput\<rparr>;
                pipelineName' = identifyResource (resourcePrefix props) ''pipeline'';
                boundAction = buildAction\<lparr>project := bindBuildAction pipelineName' webBuildProject\<rparr>
            in Inr (map (bindConstruct pipelineName' (proj_id webBuildProject)) this @
                 [CPipeline \<lparr>pipe_id = pipelineName',
                             pipelineName = pipelineName',
                             stages = [\<lparr>stageName = ''Source'', stage_actions = [Source sourceAction]\<rparr>,
                                       \<lparr>stageName = ''Build'', stage_actions = [Build boundAction]\<rparr>]\<rparr>])))"

section \<open>Entry point (bin)\<close>

definition accountId :: string where
  "accountId = ''<<YOUR_ACCOUNT_ID>>''"

definition region' :: string where
  "region' = ''<<YOUR_REGION>>''"

definition staticSiteResourcePrefix :: string where
  "staticSiteResourcePrefix = ''cdk-web-static''"

definition STATIC_SITE_BUCKET_NAME_OUTPUT_ID :: string where
  "STATIC_SITE_BUCKET_NAME_OUTPUT_ID = identifyResource staticSiteResourcePrefix ''bucket-name''"

definition STATIC_SITE_DISTRIBUTION_ID_OUTPUT_ID :: string where
  "STATIC_SITE_DISTRIBUTION_ID_OUTPUT_ID = identifyResource staticSiteResourcePrefix ''distribution-id''"

definition staticSiteProps :: StaticSiteProps where
  "staticSiteProps =
     \<lparr>env = Some \<lparr>account = Some accountId, region = Some region'\<rparr>,
      StaticSiteProps.resourcePrefix = staticSiteResourcePrefix,
      hostedZoneName = ''<<YOUR_HOSTED_ZONE_NAME>>'',
      domainName = ''<<YOUR_DOMAIN_NAME>>'',
      includeWWW = False,
      siteSourcePath = ''../dist'',
      staticSiteBucketNameOutputId = STATIC_SITE_BUCKET_NAME_OUTPUT_ID,
      staticSiteDistributionIdOutputId = STATIC_SITE_DISTRIBUTION_ID_OUTPUT_ID\<rparr>"

definition staticSiteStack :: "site_construct list" where
  "staticSiteStack = StaticSiteStack (identifyResource staticSiteResourcePrefix ''stack'') staticSiteProps"

definition ciCdResourcePrefix :: string where
  "ciCdResourcePrefix = ''cdk-web-cicd''"

definition staticSiteBucket :: cdk_string where
  "staticSiteBucket = Fn_importValue STATIC_SITE_BUCKET_NAME_OUTPUT_ID"

definition staticSiteDistributionId :: cdk_string where
  "staticSiteDistributionId = Fn_importValue STATIC_SITE_DISTRIBUTION_ID_OUTPUT_ID"

definition ciCdProps :: CiCdProps where
  "ciCdProps =
     \<lparr>env = Some \<lparr>account = Some accountId, region = Some region'\<rparr>,
      resourcePrefix = ciCdResourcePrefix,
      distributionId = staticSiteDistributionId,
      bucket = staticSiteBucket,
      repo = ''<<YOUR_REPO_NAME>>'',
      repoOwner = ''<<YOUR_REPO_OWNER>>'',
      repoBranch = ''master'',
      githubTokenSecretId = ''/static-cdk/cicd/github_token'',
      buildAlertEmail = ''<<YOUR_EMAIL_ADDRESS>>>''\<rparr>"

definition ciCdStack :: "error + cicd_construct list" where
  "ciCdStack = CiCdStack (identifyResource ciCdResourcePrefix ''stack'') ciCdProps"

section \<open>Reading a declared topology\<close>

definition certificates :: "site_construct list \<Rightarrow> DnsValidatedCertificate list" where
  "certificates t = [c. CCertificate c \<leftarrow> t]"

definition aliasRecords :: "site_construct list \<Rightarrow> ARecord list" where
  "aliasRecords t = [r. CARecord r \<leftarrow> t]"

definition buckets :: "site_construct list \<Rightarrow> Bucket list" where
  "buckets t = [b. CBucket b \<leftarrow> t]"

definition distributions :: "site_construct list \<Rightarrow> CloudFrontWebDistribution list" where
  "distributions t = [d. CDistribution d \<leftarrow> t]"

definition outputs :: "site_construct list \<Rightarrow> CfnOutput list" where
  "outputs t = [x. COutput x \<leftarrow> t]"

text \<open>The names the certificate covers besides its own domain, and the names that have a
  DNS alias record.\<close>

definition certificateAlternativeNames :: "site_construct list \<Rightarrow> string list" where
  "certificateAlternativeNames t = concat (map subjectAlternativeNames (certificates t))"

definition aliasRecordNames :: "site_construct list \<Rightarrow> string list" where
  "aliasRecordNames t = map recordName (aliasRecords t)"

definition viewerAliases :: "site_construct list \<Rightarrow> string list" where
  "viewerAliases t = concat (map (\<lambda>d. aliases (viewerCertificate d)) (distributions t))"

text \<open>The exports of a stack: export name and exported value of each output, in order.\<close>

definition exports :: "site_construct list \<Rightarrow> (string \<times> cdk_string) list" where
  "exports t = map (\<lambda>x. (exportName x, out_value x)) (outputs t)"

text \<open>All principals to which an ALLOW statement that the stack added to the bucket's
  resource policy grants anything.\<close>

definition grantedPrincipals :: "Bucket \<Rightarrow> Principal list" where
  "grantedPrincipals b = concat (map principals (filter (\<lambda>s. effect_of s = ALLOW) (resourcePolicy b)))"

definition originConfigsOf :: "site_construct list \<Rightarrow> SourceConfiguration list" where
  "originConfigsOf t = concat (map originConfigs (distributions t))"

text \<open>The origin identity principals of the distribution's origins.\<close>

definition originIdentityPrincipals :: "site_construct list \<Rightarrow> Principal list" where
  "originIdentityPrincipals t =
     map (\<lambda>c. CanonicalUserPrincipal
                 (cloudFrontOriginAccessIdentityS3CanonicalUserId (originAccessIdentity (s3OriginSource c))))
         (originConfigsOf t)"

text \<open>The HTTP verbs each setting of the distribution's allowed methods lets through
  (the three settings CloudFront offers).\<close>

datatype HttpMethod = GET | HEAD | OPTIONS | PUT | PATCH | POST | DELETE

fun httpMethods :: "CloudFrontAllowedMethods \<Rightarrow> HttpMethod list" where
  "httpMethods GET_HEAD = [GET, HEAD]"
| "httpMethods GET_HEAD_OPTIONS = [GET, HEAD, OPTIONS]"
| "httpMethods ALL' = [DELETE, GET, HEAD, OPTIONS, PATCH, POST, PUT]"

fun mutating :: "HttpMethod \<Rightarrow> bool" where
  "mutating GET = False"
| "mutating HEAD = False"
| "mutating OPTIONS = False"
| "mutating PUT = True"
| "mutating PATCH = True"
| "mutating POST = True"
| "mutating DELETE = True"

definition behaviorsOf :: "site_construct list \<Rightarrow> Behavior list" where
  "behaviorsOf t = concat (map behaviors (originConfigsOf t))"

text \<open>Reading the pipeline stack. A stack whose construction failed declares nothing.\<close>

definition projects :: "cicd_construct list \<Rightarrow> PipelineProject list" where
  "projects t = [p. CProject p \<leftarrow> t]"

definition topics :: "cicd_construct list \<Rightarrow> Topic list" where
  "topics t = [x. CTopic x \<leftarrow> t]"

definition subscriptions :: "cicd_construct list \<Rightarrow> Subscription list" where
  "subscriptions t = [x. CSubscription x \<leftarrow> t]"

definition pipelines :: "cicd_construct list \<Rightarrow> Pipeline list" where
  "pipelines t = [x. CPipeline x \<leftarrow> t]"

definition failureRules :: "cicd_construct list \<Rightarrow> Rule list" where
  "failureRules t = concat (map eventRules (projects t))"

definition pipelineActions :: "cicd_construct list \<Rightarrow> Action list" where
  "pipelineActions t = concat (map stage_actions (concat (map stages (pipelines t))))"

fun actionName :: "Action \<Rightarrow> string" where
  "actionName (Source a) = gh_actionName a"
| "actionName (Build a) = cb_actionName a"


text \<open>
  What the provider makes of a string at deployment: an import by key is replaced by the
  value exported under that key (left as it is when nothing is exported under it).
\<close>

fun resolveFrag :: "(string \<times> cdk_string) list \<Rightarrow> frag \<Rightarrow> cdk_string" where
  "resolveFrag ex (ImportValue k) = (case map_of ex k of None \<Rightarrow> [ImportValue k] | Some v \<Rightarrow> v)"
| "resolveFrag ex (Lit s) = [Lit s]"
| "resolveFrag ex (Attr r a) = [Attr r a]"

definition resolveImports :: "(string \<times> cdk_string) list \<Rightarrow> cdk_string \<Rightarrow> cdk_string" where
  "resolveImports ex s = concat (map (resolveFrag ex) s)"

text \<open>
  Who may read the objects of a bucket. A statement lets its grantee read objects when it
  is an ALLOW with the action \<open>s3:GetObject\<close>. In the bucket's own policy document the
  grantees are the statement's principals. In a build project's role policy the grantee
  is the project's role, and the statement is about this bucket when one of its
  resources, with imports resolved against the hosting stack's exports, is the text of
  the ARN of the bucket's objects.
\<close>

definition allowsGetObject :: "PolicyStatement \<Rightarrow> bool" where
  "allowsGetObject s = (effect_of s = ALLOW \<and> ''s3:GetObject'' \<in> set (actions s))"

definition policyReaders :: "Bucket \<Rightarrow> Principal list" where
  "policyReaders b = concat (map principals (filter allowsGetObject (bucketPolicy b)))"

fun fragText :: "frag \<Rightarrow> string" where
  "fragText (Lit s) = s"
| "fragText (ImportValue k) = []"
| "fragText (Attr r a) = []"

definition literalText :: "cdk_string \<Rightarrow> string option" where
  "literalText s = (if list_all is_literal s then Some (concat (map fragText s)) else None)"

definition objectsArnText :: "Bucket \<Rightarrow> string" where
  "objectsArnText b = ''arn:aws:s3:::'' @ bucketName b @ ''/*''"

definition readsObjectsOf :: "(string \<times> cdk_string) list \<Rightarrow> Bucket \<Rightarrow> PolicyStatement \<Rightarrow> bool" where
  "readsObjectsOf ex b s =
     (allowsGetObject s
      \<and> list_ex (\<lambda>r. literalText (resolveImports ex r) = Some (objectsArnText b)) (resources s))"

definition roleReaders ::
  "(string \<times> cdk_string) list \<Rightarrow> Bucket \<Rightarrow> cicd_construct list \<Rightarrow> Principal list" where
  "roleReaders ex b t =
     map (\<lambda>p. ProjectRole (proj_id p))
         (filter (\<lambda>p. list_ex (readsObjectsOf ex b) (rolePolicy p)) (projects t))"

definition objectReaders :: "site_construct list \<Rightarrow> cicd_construct list \<Rightarrow> Principal list" where
  "objectReaders site t =
     concat (map (\<lambda>b. policyReaders b @ roleReaders (exports site) b t) (buckets site))"

text \<open>The statements that name a value imported from another stack.\<close>

definition namesImport :: "PolicyStatement \<Rightarrow> bool" where
  "namesImport s = list_ex (list_ex is_import) (resources s)"

definition declared :: "error + cicd_construct list \<Rightarrow> cicd_construct list" where
  "declared r = (case r of Inl e \<Rightarrow> [] | Inr t \<Rightarrow> t)"

definition buildActionProjects :: "cicd_construct list \<Rightarrow> PipelineProject list" where
  "buildActionProjects t = [project a. Build a \<leftarrow> pipelineActions t]"

text \<open>The logical names the sources pass to the namer: the hosting stack's (lines 31 to
  127 of its file), the pipeline stack's (lines 51 to 124) and the entry point's.\<close>

definition staticSiteLogicalNames :: "string list" where
  "staticSiteLogicalNames =
     [''hosted-zone'', ''cloudfront-OAI'', ''site-bucket'', ''site-certificate'',
      ''site-distribution'', ''site-alias-record-01'', ''site-alias-record-02'',
      ''bucket-deployment'']"

definition ciCdLogicalNames :: "string list" where
  "ciCdLogicalNames =
     [''pipeline'', ''build'', ''notifications'', ''notifications-subscription'', ''build-failed'']"

definition entryLogicalNames :: "string list" where
  "entryLogicalNames = [''bucket-name'', ''distribution-id'', ''stack'']"

section \<open>Properties of the hosting stack\<close>

lemma www_not_domain: "''www.'' @ d \<noteq> d"
proof
  assume "''www.'' @ d = d"
  then have "length (''www.'' @ d) = length d" by simp
  then show False by simp
qed

lemma certificates_StaticSiteStack:
  "certificates (StaticSiteStack id' props) =
     [\<lparr>cert_id = identifyResource (StaticSiteProps.resourcePrefix props) ''site-certificate'',
       cert_domainName = domainName props,
       cert_hostedZone = \<lparr>hz_id = identifyResource (StaticSiteProps.resourcePrefix props) ''hosted-zone'',
                          hz_domainName = hostedZoneName props\<rparr>,
       cert_region = ''us-east-1'',
       subjectAlternativeNames = (if includeWWW props then [''www.'' @ domainName props] else [])\<rparr>]"
  by (simp add: certificates_def StaticSiteStack_def Let_def)

lemma aliasRecords_StaticSiteStack:
  "aliasRecords (StaticSiteStack id' props) =
     (let zone = \<lparr>hz_id = identifyResource (StaticSiteProps.resourcePrefix props) ''hosted-zone'',
                  hz_domainName = hostedZoneName props\<rparr>;
          tgt = CloudFrontTarget (identifyResource (StaticSiteProps.resourcePrefix props) ''site-distribution'')
      in \<lparr>arec_id = identifyResource (StaticSiteProps.resourcePrefix props) ''site-alias-record-01'',
           recordName = domainName props, target = tgt, zone = zone\<rparr>
         # (if includeWWW props
            then [\<lparr>arec_id = identifyResource (StaticSiteProps.resourcePrefix props) ''site-alias-record-02'',
                   recordName = ''www.'' @ domainName props, target = tgt, zone = zone\<rparr>]
            else []))"
  by (simp add: aliasRecords_def StaticSiteStack_def Let_def)

lemma aliasRecordNames_StaticSiteStack:
  "aliasRecordNames (StaticSiteStack id' props) =
     (if includeWWW props then [domainName props, ''www.'' @ domainName props] else [domainName props])"
  by (simp add: aliasRecordNames_def aliasRecords_StaticSiteStack Let_def)

lemma certificateAlternativeNames_StaticSiteStack:
  "certificateAlternativeNames (StaticSiteStack id' props) =
     (if includeWWW props then [''www.'' @ domainName props] else [])"
  by (simp add: certificateAlternativeNames_def certificates_StaticSiteStack)

lemma viewerAliases_StaticSiteStack:
  "viewerAliases (StaticSiteStack id' props) =
     (if includeWWW props then [domainName props, ''www.'' @ domainName props] else [domainName props])"
  by (simp add: viewerAliases_def distributions_def StaticSiteStack_def Let_def)

text \<open>
  C1. For either value of \<open>includeWWW\<close>, the \<open>www.\<close>-prefixed domain is among the
  certificate's subject alternative names exactly when the flag is set, and it is among
  the DNS alias record names exactly when the flag is set; so the two layers (and the
  distribution's own alias list) always agree on covering the www alias.
\<close>

theorem www_alias_layers_agree:
  "((''www.'' @ domainName props) \<in> set (certificateAlternativeNames (StaticSiteStack id' props)))
      = includeWWW props
   \<and> ((''www.'' @ domainName props) \<in> set (aliasRecordNames (StaticSiteStack id' props)))
      = includeWWW props
   \<and> ((''www.'' @ domainName props) \<in> set (viewerAliases (StaticSiteStack id' props)))
      = includeWWW props"
  using www_not_domain [of "domainName props"]
  by (simp add: certificateAlternativeNames_StaticSiteStack aliasRecordNames_StaticSiteStack
      viewerAliases_StaticSiteStack)

text \<open>
  C2. Built with \<open>includeWWW = false\<close>, the hosting stack has exactly one DNS alias
  record, the one for the primary domain, and its certificate has no subject alternative
  name.
\<close>

theorem no_www_single_alias_record:
  "\<not> includeWWW props \<Longrightarrow>
     map recordName (aliasRecords (StaticSiteStack id' props)) = [domainName props]
   \<and> length (aliasRecords (StaticSiteStack id' props)) = 1
   \<and> certificateAlternativeNames (StaticSiteStack id' props) = []
   \<and> length (certificates (StaticSiteStack id' props)) = 1"
  by (simp add: certificateAlternativeNames_StaticSiteStack certificates_StaticSiteStack
      aliasRecords_StaticSiteStack Let_def)

theorem no_www_single_alias_record_witness:
  "\<not> includeWWW staticSiteProps
   \<and> map recordName (aliasRecords staticSiteStack) = [''<<YOUR_DOMAIN_NAME>>'']
   \<and> length (aliasRecords staticSiteStack) = 1
   \<and> certificateAlternativeNames staticSiteStack = []
   \<and> length (certificates staticSiteStack) = 1"
  using no_www_single_alias_record [of staticSiteProps "identifyResource staticSiteResourcePrefix ''stack''"]
  by (simp add: staticSiteProps_def staticSiteStack_def)

lemma buckets_StaticSiteStack:
  "buckets (StaticSiteStack id' props) =
     [\<lparr>bucket_id = identifyResource (StaticSiteProps.resourcePrefix props) ''site-bucket'',
       bucketName = domainName props,
       websiteIndexDocument = ''index.html'',
       websiteErrorDocument = ''error.html'',
       publicReadAccess = False,
       blockPublicAccess = BLOCK_ALL,
       removalPolicy = DESTROY,
       autoDeleteObjects = True,
       constructorPolicy =
         [\<lparr>effect = None,
           actions = [''s3:GetBucket*'', ''s3:List*'', ''s3:DeleteObject*''],
           resources = [[Attr (identifyResource (StaticSiteProps.resourcePrefix props) ''site-bucket'') ''Arn''],
                        [Attr (identifyResource (StaticSiteProps.resourcePrefix props) ''site-bucket'') ''Arn'',
                         Lit ''/*'']],
           principals = [ArnPrincipal
              [Attr ''Custom::S3AutoDeleteObjectsCustomResourceProvider'' ''RoleArn'']]\<rparr>],
       resourcePolicy =
         [\<lparr>effect = None,
           actions = [''s3:GetObject''],
           resources = [[Attr (identifyResource (StaticSiteProps.resourcePrefix props) ''site-bucket'') ''Arn'',
                         Lit ''/*'']],
           principals = [CanonicalUserPrincipal
              [Attr (identifyResource (StaticSiteProps.resourcePrefix props) ''cloudfront-OAI'')
                 ''S3CanonicalUserId'']]\<rparr>]\<rparr>]"
  by (simp add: buckets_def StaticSiteStack_def Let_def addToResourcePolicy_def arnForObjects_def
      cloudFrontOriginAccessIdentityS3CanonicalUserId_def newBucket_def autoDeleteStatement_def
      bucketArn_def)

lemma exports_StaticSiteStack:
  "exports (StaticSiteStack id' props) =
     [(staticSiteBucketNameOutputId props, [Lit (domainName props)]),
      (staticSiteDistributionIdOutputId props,
       [Attr (identifyResource (StaticSiteProps.resourcePrefix props) ''site-distribution'')
          ''DistributionId''])]"
  by (simp add: exports_def outputs_def StaticSiteStack_def Let_def addToResourcePolicy_def
      distributionId_of_def newBucket_def)

lemma originConfigsOf_StaticSiteStack:
  "originConfigsOf (StaticSiteStack id' props) =
     [\<lparr>s3OriginSource =
         \<lparr>s3BucketSource = hd (buckets (StaticSiteStack id' props)),
          originAccessIdentity =
            \<lparr>oai_id = identifyResource (StaticSiteProps.resourcePrefix props) ''cloudfront-OAI'',
             oai_comment = ''OAI for '' @ id'\<rparr>\<rparr>,
       behaviors = [\<lparr>isDefaultBehavior = True, compress = True,
                     allowedMethods = GET_HEAD_OPTIONS\<rparr>]\<rparr>]"
  unfolding buckets_StaticSiteStack
  by (simp add: originConfigsOf_def distributions_def StaticSiteStack_def Let_def
      addToResourcePolicy_def arnForObjects_def cloudFrontOriginAccessIdentityS3CanonicalUserId_def
      newBucket_def autoDeleteStatement_def bucketArn_def)

lemma viewerCertificates_StaticSiteStack:
  "map viewerCertificate (distributions (StaticSiteStack id' props)) =
     [\<lparr>certificateArn = [Attr (identifyResource (StaticSiteProps.resourcePrefix props) ''site-certificate'')
                           ''Arn''],
       sslMethod = SNI,
       securityPolicy = TLS_V1_2_2021,
       aliases = (if includeWWW props then [domainName props, ''www.'' @ domainName props]
                  else [domainName props])\<rparr>]"
  by (simp add: distributions_def StaticSiteStack_def Let_def certificateArn_of_def)

text \<open>
  C8. The stack declares one distribution. Its single origin is the stack's bucket,
  read through the origin access identity; its viewer certificate is the issued
  certificate's ARN with security policy TLS v1.2 (2021) as the minimum protocol; its
  single behaviour compresses and allows exactly GET, HEAD and OPTIONS, none of which
  is a mutating verb.
\<close>

theorem distribution_bound_tls_compressed_read_only:
  "length (distributions (StaticSiteStack id' props)) = 1
   \<and> map (\<lambda>c. s3BucketSource (s3OriginSource c)) (originConfigsOf (StaticSiteStack id' props))
        = buckets (StaticSiteStack id' props)
   \<and> map (\<lambda>c. CanonicalUserPrincipal
                 (cloudFrontOriginAccessIdentityS3CanonicalUserId (originAccessIdentity (s3OriginSource c))))
          (originConfigsOf (StaticSiteStack id' props))
        = grantedPrincipals (hd (buckets (StaticSiteStack id' props)))
   \<and> map (\<lambda>d. certificateArn (viewerCertificate d)) (distributions (StaticSiteStack id' props))
        = map certificateArn_of (certificates (StaticSiteStack id' props))
   \<and> map (\<lambda>d. securityPolicy (viewerCertificate d)) (distributions (StaticSiteStack id' props))
        = [TLS_V1_2_2021]
   \<and> map compress (behaviorsOf (StaticSiteStack id' props)) = [True]
   \<and> concat (map (\<lambda>b. httpMethods (allowedMethods b)) (behaviorsOf (StaticSiteStack id' props)))
        = [GET, HEAD, OPTIONS]
   \<and> filter mutating
        (concat (map (\<lambda>b. httpMethods (allowedMethods b)) (behaviorsOf (StaticSiteStack id' props))))
        = []"
proof -
  have n: "length (distributions (StaticSiteStack id' props)) = 1"
    using arg_cong [OF viewerCertificates_StaticSiteStack [of id' props], of length] by simp
  have v: "map (\<lambda>d. certificateArn (viewerCertificate d)) (distributions (StaticSiteStack id' props))
             = map certificateArn (map viewerCertificate (distributions (StaticSiteStack id' props)))"
          "map (\<lambda>d. securityPolicy (viewerCertificate d)) (distributions (StaticSiteStack id' props))
             = map securityPolicy (map viewerCertificate (distributions (StaticSiteStack id' props)))"
    by simp_all
  have b: "behaviorsOf (StaticSiteStack id' props)
             = [\<lparr>isDefaultBehavior = True, compress = True, allowedMethods = GET_HEAD_OPTIONS\<rparr>]"
    by (simp add: behaviorsOf_def originConfigsOf_StaticSiteStack)
  have c: "map (\<lambda>d. certificateArn (viewerCertificate d)) (distributions (StaticSiteStack id' props))
             = map certificateArn_of (certificates (StaticSiteStack id' props))"
    unfolding v viewerCertificates_StaticSiteStack
    by (simp add: certificates_StaticSiteStack certificateArn_of_def)
  have s: "map (\<lambda>d. securityPolicy (viewerCertificate d)) (distributions (StaticSiteStack id' props))
             = [TLS_V1_2_2021]"
    unfolding v viewerCertificates_StaticSiteStack by simp
  have o: "map (\<lambda>c. s3BucketSource (s3OriginSource c)) (originConfigsOf (StaticSiteStack id' props))
             = buckets (StaticSiteStack id' props)"
    by (simp add: originConfigsOf_StaticSiteStack) (simp add: buckets_StaticSiteStack)
  have g: "map (\<lambda>c. CanonicalUserPrincipal
                 (cloudFrontOriginAccessIdentityS3CanonicalUserId (originAccessIdentity (s3OriginSource c))))
              (originConfigsOf (StaticSiteStack id' props))
             = grantedPrincipals (hd (buckets (StaticSiteStack id' props)))"
    by (simp add: originConfigsOf_StaticSiteStack)
       (simp add: buckets_StaticSiteStack grantedPrincipals_def effect_of_def
          cloudFrontOriginAccessIdentityS3CanonicalUserId_def)
  show ?thesis
    using n o g c s by (simp add: b)
qed

section \<open>Properties of the namer\<close>

lemma identifyResource_inj: "(identifyResource prefix a = identifyResource prefix b) = (a = b)"
  by (simp add: identifyResource_def)

lemma distinct_identifyResource:
  "distinct (map (identifyResource prefix) names) = distinct names"
  by (simp add: distinct_map inj_on_def identifyResource_inj)

text \<open>
  C4. The namer is a function of its two arguments (so pure and deterministic: equal
  arguments give the equal identifier); for a fixed prefix, two logical names get the
  same identifier only when they are the same name, so in particular the identifiers of
  the logical names used by the hosting stack, by the pipeline stack and by the entry
  point are pairwise distinct under any prefix; and prefix \<open>cdk-web-static\<close> with
  logical name \<open>bucket-name\<close> gives \<open>cdk-web-static-bucket-name\<close>.
\<close>

theorem identifyResource_injective_per_prefix:
  "(identifyResource prefix a = identifyResource prefix b) = (a = b)
   \<and> distinct (map (identifyResource prefix) staticSiteLogicalNames)
   \<and> distinct (map (identifyResource prefix) ciCdLogicalNames)
   \<and> distinct (map (identifyResource prefix) entryLogicalNames)
   \<and> identifyResource ''cdk-web-static'' ''bucket-name'' = ''cdk-web-static-bucket-name''"
proof -
  have "distinct staticSiteLogicalNames"
    by (simp add: staticSiteLogicalNames_def)
  moreover have "distinct ciCdLogicalNames"
    by (simp add: ciCdLogicalNames_def)
  moreover have "distinct entryLogicalNames"
    by (simp add: entryLogicalNames_def)
  moreover have "identifyResource ''cdk-web-static'' ''bucket-name'' = ''cdk-web-static-bucket-name''"
    by (simp add: identifyResource_def)
  ultimately show ?thesis
    by (simp add: identifyResource_inj distinct_identifyResource)
qed

section \<open>Properties of the pipeline stack\<close>

lemma createBuildProject_project:
  \<open>fst (createBuildProject p d b m a) =
     \<lparr>proj_id = identifyResource p ''build'',
      buildSpec =
        \<lparr>version = ''0.2'',
         install = \<lparr>runtime_versions = [(''nodejs'', ''latest'')], commands = [[Lit ''npm install'']]\<rparr>,
         build = \<lparr>runtime_versions = [], commands = [[Lit ''npm run build'']]\<rparr>,
         post_build = \<lparr>runtime_versions = [],
            commands =
              [[Lit ''aws s3 sync "dist" "s3://''] @ b @ [Lit ''" --delete''],
               [Lit ''aws cloudfront create-invalidation --distribution-id ''] @ d
                 @ [Lit '' --paths "/*"'']]\<rparr>\<rparr>,
      buildImage = STANDARD_5_0,
      rolePolicy =
        projectConstructorPolicy (identifyResource p ''build'') @
        [\<lparr>effect = Some ALLOW,
          actions = [''s3:GetObject'', ''s3:GetBucketLocation'', ''s3:ListBucket'',
                     ''s3:PutObject'', ''s3:DeleteObject'', ''s3:PutObjectAcl''],
          resources = [[Lit ''arn:aws:s3:::''] @ b, [Lit ''arn:aws:s3:::''] @ b @ [Lit ''/*'']],
          principals = []\<rparr>,
         \<lparr>effect = Some ALLOW,
          actions = [''cloudfront:CreateInvalidation''],
          resources = [[Lit (''arn:aws:cloudfront::'' @ a @ '':distribution/'')] @ d],
          principals = []\<rparr>],
      eventRules =
        [\<lparr>rule_id = identifyResource p ''build-failed'',
          rule_event = BuildFailed,
          rule_target = SnsTopic \<lparr>topic_id = identifyResource p ''notifications'',
                                  topicName = identifyResource p ''notifications'',
                                  displayName = p @ '' pipeline failures''\<rparr>\<rparr>]\<rparr>\<close>
  by (simp add: createBuildProject_def Let_def addToPrincipalPolicy_def onBuildFailed_def)

lemma createBuildProject_children:
  "snd (createBuildProject p d b m a) =
     [CProject (fst (createBuildProject p d b m a)),
      CTopic \<lparr>topic_id = identifyResource p ''notifications'',
              topicName = identifyResource p ''notifications'',
              displayName = p @ '' pipeline failures''\<rparr>,
      CSubscription
        \<lparr>sub_id = identifyResource p ''notifications-subscription'',
         protocol = EMAIL,
         endpoint = m,
         sub_topic = \<lparr>topic_id = identifyResource p ''notifications'',
                      topicName = identifyResource p ''notifications'',
                      displayName = p @ '' pipeline failures''\<rparr>\<rparr>]"
  by (simp add: createBuildProject_def Let_def)

lemma bind_children:
  "map (bindConstruct q (proj_id (fst (createBuildProject p d b m a))))
       (snd (createBuildProject p d b m a)) =
     [CProject (bindBuildAction q (fst (createBuildProject p d b m a))),
      CTopic \<lparr>topic_id = identifyResource p ''notifications'',
              topicName = identifyResource p ''notifications'',
              displayName = p @ '' pipeline failures''\<rparr>,
      CSubscription
        \<lparr>sub_id = identifyResource p ''notifications-subscription'',
         protocol = EMAIL,
         endpoint = m,
         sub_topic = \<lparr>topic_id = identifyResource p ''notifications'',
                      topicName = identifyResource p ''notifications'',
                      displayName = p @ '' pipeline failures''\<rparr>\<rparr>]"
  by (simp add: createBuildProject_children)

lemma CiCdStack_with_env:
  "env props = Some e \<Longrightarrow>
   CiCdStack id' props =
     Inr (map (bindConstruct (identifyResource (resourcePrefix props) ''pipeline'')
                 (proj_id (fst (createBuildProject (resourcePrefix props) (distributionId props)
                    (bucket props) (buildAlertEmail props)
                    (case account e of None \<Rightarrow> ''undefined'' | Some a \<Rightarrow> a)))))
              (snd (createBuildProject (resourcePrefix props) (distributionId props) (bucket props)
                 (buildAlertEmail props) (case account e of None \<Rightarrow> ''undefined'' | Some a \<Rightarrow> a)))
          @ [CPipeline
               \<lparr>pipe_id = identifyResource (resourcePrefix props) ''pipeline'',
                pipelineName = identifyResource (resourcePrefix props) ''pipeline'',
                stages =
                  [\<lparr>stageName = ''Source'',
                    stage_actions =
                      [Source \<lparr>gh_actionName = ''SOURCE'', gh_owner = repoOwner props,
                               gh_repo = repo props, gh_branch = repoBranch props,
                               oauthToken = SecretsManager (githubTokenSecretId props) ''github-token'',
                               gh_output = \<lparr>artifactName = ''SourceOutput''\<rparr>\<rparr>]\<rparr>,
                   \<lparr>stageName = ''Build'',
                    stage_actions =
                      [Build \<lparr>cb_actionName = ''BUILD_DEPLOY'',
                              project = bindBuildAction (identifyResource (resourcePrefix props) ''pipeline'')
                                (fst (createBuildProject (resourcePrefix props)
                                  (distributionId props) (bucket props) (buildAlertEmail props)
                                  (case account e of None \<Rightarrow> ''undefined'' | Some a \<Rightarrow> a))),
                              cb_input = \<lparr>artifactName = ''SourceOutput''\<rparr>\<rparr>]\<rparr>]\<rparr>])"
  by (simp add: CiCdStack_def Let_def split_beta)

lemma CiCdStack_without_env: "env props = None \<Longrightarrow> CiCdStack id' props = Inl TypeError"
  by (simp add: CiCdStack_def)

lemma projects_ciCdStack:
  "projects (declared ciCdStack) =
     [bindBuildAction (identifyResource ciCdResourcePrefix ''pipeline'')
        (fst (createBuildProject ciCdResourcePrefix staticSiteDistributionId staticSiteBucket
                ''<<YOUR_EMAIL_ADDRESS>>>'' accountId))]"
proof -
  have e: "env ciCdProps = Some \<lparr>account = Some accountId, region = Some region'\<rparr>"
    by (simp add: ciCdProps_def)
  show ?thesis
    unfolding ciCdStack_def CiCdStack_with_env [OF e] bind_children
    by (simp add: declared_def projects_def) (simp add: ciCdProps_def)
qed


text \<open>
  C9. When the stack is constructed (its properties carry an environment), it declares
  exactly four resources: the build project, one topic, one subscription and the
  pipeline. The build project has exactly one event rule, for failed builds, whose target
  is that topic; the one subscription is an e-mail subscription of the given alert
  address to that topic; the project run by the pipeline's build action is that same
  project; and the pipeline's actions are exactly the source action and the
  build-and-deploy action, so nothing else (no retry, no rollback) is declared.
\<close>

theorem single_failure_path_to_alert_topic:
  "env props = Some e \<Longrightarrow>
   (\<exists>t. CiCdStack id' props = Inr t
      \<and> length t = 4
      \<and> length (projects t) = 1 \<and> length (topics t) = 1
      \<and> length (subscriptions t) = 1 \<and> length (pipelines t) = 1
      \<and> map rule_event (failureRules t) = [BuildFailed]
      \<and> map rule_target (failureRules t) = map SnsTopic (topics t)
      \<and> map sub_topic (subscriptions t) = topics t
      \<and> map protocol (subscriptions t) = [EMAIL]
      \<and> map endpoint (subscriptions t) = [buildAlertEmail props]
      \<and> buildActionProjects t = projects t
      \<and> map actionName (pipelineActions t) = [''SOURCE'', ''BUILD_DEPLOY''])"
  by (simp add: CiCdStack_with_env bind_children projects_def topics_def
      subscriptions_def pipelines_def failureRules_def pipelineActions_def buildActionProjects_def)
     (simp add: createBuildProject_project bindBuildAction_def)

theorem single_failure_path_to_alert_topic_witness:
  "env ciCdProps = Some \<lparr>account = Some accountId, region = Some region'\<rparr>
   \<and> (\<exists>t. ciCdStack = Inr t
      \<and> length t = 4
      \<and> length (projects t) = 1 \<and> length (topics t) = 1
      \<and> length (subscriptions t) = 1 \<and> length (pipelines t) = 1
      \<and> map rule_event (failureRules t) = [BuildFailed]
      \<and> map rule_target (failureRules t) = map SnsTopic (topics t)
      \<and> map sub_topic (subscriptions t) = topics t
      \<and> map protocol (subscriptions t) = [EMAIL]
      \<and> map endpoint (subscriptions t) = [''<<YOUR_EMAIL_ADDRESS>>>'']
      \<and> buildActionProjects t = projects t
      \<and> map actionName (pipelineActions t) = [''SOURCE'', ''BUILD_DEPLOY''])"
proof -
  have e: "env ciCdProps = Some \<lparr>account = Some accountId, region = Some region'\<rparr>"
    by (simp add: ciCdProps_def)
  have m: "buildAlertEmail ciCdProps = ''<<YOUR_EMAIL_ADDRESS>>>''"
    by (simp add: ciCdProps_def)
  show ?thesis
    using single_failure_path_to_alert_topic [OF e, of "identifyResource ciCdResourcePrefix ''stack''"]
    unfolding m ciCdStack_def
    using e by simp
qed

section \<open>Properties of the entry point\<close>

lemma entry_keys:
  "staticSiteBucketNameOutputId staticSiteProps = ''cdk-web-static-bucket-name''"
  "staticSiteDistributionIdOutputId staticSiteProps = ''cdk-web-static-distribution-id''"
  "staticSiteBucket = [ImportValue ''cdk-web-static-bucket-name'']"
  "staticSiteDistributionId = [ImportValue ''cdk-web-static-distribution-id'']"
  by (simp_all add: staticSiteProps_def staticSiteDistributionId_def staticSiteBucket_def
      Fn_importValue_def STATIC_SITE_BUCKET_NAME_OUTPUT_ID_def
      STATIC_SITE_DISTRIBUTION_ID_OUTPUT_ID_def staticSiteResourcePrefix_def identifyResource_def)

lemma exports_staticSiteStack:
  "exports staticSiteStack =
     [(''cdk-web-static-bucket-name'', [Lit ''<<YOUR_DOMAIN_NAME>>'']),
      (''cdk-web-static-distribution-id'',
       [Attr ''cdk-web-static-site-distribution'' ''DistributionId''])]"
  unfolding staticSiteStack_def exports_StaticSiteStack
  by (simp add: staticSiteProps_def STATIC_SITE_BUCKET_NAME_OUTPUT_ID_def
      STATIC_SITE_DISTRIBUTION_ID_OUTPUT_ID_def staticSiteResourcePrefix_def identifyResource_def)

lemma rolePolicy_ciCdStack:
  "map rolePolicy (projects (declared ciCdStack)) =
     [projectConstructorPolicy ''cdk-web-cicd-build'' @
      [\<lparr>effect = Some ALLOW,
        actions = [''s3:GetObject'', ''s3:GetBucketLocation'', ''s3:ListBucket'',
                   ''s3:PutObject'', ''s3:DeleteObject'', ''s3:PutObjectAcl''],
        resources = [[Lit ''arn:aws:s3:::'', ImportValue ''cdk-web-static-bucket-name''],
                     [Lit ''arn:aws:s3:::'', ImportValue ''cdk-web-static-bucket-name'', Lit ''/*'']],
        principals = []\<rparr>,
       \<lparr>effect = Some ALLOW,
        actions = [''cloudfront:CreateInvalidation''],
        resources = [[Lit ''arn:aws:cloudfront::<<YOUR_ACCOUNT_ID>>:distribution/'',
                      ImportValue ''cdk-web-static-distribution-id'']],
        principals = []\<rparr>] @
      artifactAccessPolicy ''cdk-web-cicd-pipeline'']"
  unfolding projects_ciCdStack entry_keys
  by (simp add: createBuildProject_project bindBuildAction_def ciCdResourcePrefix_def
      identifyResource_def accountId_def)

lemma namesImport_ciCdStack:
  "map (\<lambda>p. filter namesImport (rolePolicy p)) (projects (declared ciCdStack)) =
     [[\<lparr>effect = Some ALLOW,
        actions = [''s3:GetObject'', ''s3:GetBucketLocation'', ''s3:ListBucket'',
                   ''s3:PutObject'', ''s3:DeleteObject'', ''s3:PutObjectAcl''],
        resources = [[Lit ''arn:aws:s3:::'', ImportValue ''cdk-web-static-bucket-name''],
                     [Lit ''arn:aws:s3:::'', ImportValue ''cdk-web-static-bucket-name'', Lit ''/*'']],
        principals = []\<rparr>,
       \<lparr>effect = Some ALLOW,
        actions = [''cloudfront:CreateInvalidation''],
        resources = [[Lit ''arn:aws:cloudfront::<<YOUR_ACCOUNT_ID>>:distribution/'',
                      ImportValue ''cdk-web-static-distribution-id'']],
        principals = []\<rparr>]]"
proof -
  have "map (\<lambda>p. filter namesImport (rolePolicy p)) (projects (declared ciCdStack))
          = map (filter namesImport) (map rolePolicy (projects (declared ciCdStack)))"
    by simp
  then show ?thesis
    unfolding rolePolicy_ciCdStack
    by (simp add: namesImport_def projectConstructorPolicy_def artifactAccessPolicy_def)
qed

lemma postBuild_ciCdStack:
  \<open>map (\<lambda>p. commands (post_build (buildSpec p))) (projects (declared ciCdStack)) =
     [[[Lit ''aws s3 sync "dist" "s3://'', ImportValue ''cdk-web-static-bucket-name'',
        Lit ''" --delete''],
       [Lit ''aws cloudfront create-invalidation --distribution-id '',
        ImportValue ''cdk-web-static-distribution-id'', Lit '' --paths "/*"'']]]\<close>
  unfolding projects_ciCdStack entry_keys
  by (simp add: createBuildProject_project bindBuildAction_def)

text \<open>
  C3. The bucket and distribution identifiers handed to the pipeline stack are each a
  single import-by-key fragment, with no literal text; the keys imported are the two
  key strings handed to the hosting stack, and the hosting stack (for any properties)
  exports exactly under the two keys it was given, in that order. The pipeline stack
  built from them carries them as such: in its build project, which is the project its
  build action runs, the sync and invalidation commands and the resources of the two role
  statements that name the bucket and the distribution hold the imports of these two
  keys, not the bucket's name or the distribution's identifier.
\<close>

theorem pipeline_identifiers_are_imports_of_hosting_outputs:
  \<open>bucket ciCdProps = [ImportValue (staticSiteBucketNameOutputId staticSiteProps)]
   \<and> distributionId ciCdProps = [ImportValue (staticSiteDistributionIdOutputId staticSiteProps)]
   \<and> map is_import (bucket ciCdProps @ distributionId ciCdProps) = [True, True]
   \<and> filter is_literal (bucket ciCdProps @ distributionId ciCdProps) = []
   \<and> map fst (exports staticSiteStack) =
        [staticSiteBucketNameOutputId staticSiteProps, staticSiteDistributionIdOutputId staticSiteProps]
   \<and> map fst (exports (StaticSiteStack id' props)) =
        [staticSiteBucketNameOutputId props, staticSiteDistributionIdOutputId props]
   \<and> ciCdStack = CiCdStack (identifyResource ciCdResourcePrefix ''stack'') ciCdProps
   \<and> length (projects (declared ciCdStack)) = 1
   \<and> buildActionProjects (declared ciCdStack) = projects (declared ciCdStack)
   \<and> map (\<lambda>p. commands (post_build (buildSpec p))) (projects (declared ciCdStack)) =
       [[[Lit ''aws s3 sync "dist" "s3://''] @ bucket ciCdProps @ [Lit ''" --delete''],
         [Lit ''aws cloudfront create-invalidation --distribution-id ''] @ distributionId ciCdProps
           @ [Lit '' --paths "/*"'']]]
   \<and> map (\<lambda>p. map resources (filter namesImport (rolePolicy p))) (projects (declared ciCdStack)) =
       [[[[Lit ''arn:aws:s3:::''] @ bucket ciCdProps,
          [Lit ''arn:aws:s3:::''] @ bucket ciCdProps @ [Lit ''/*'']],
         [[Lit ''arn:aws:cloudfront::<<YOUR_ACCOUNT_ID>>:distribution/''] @ distributionId ciCdProps]]]\<close>
proof -
  have k: "bucket ciCdProps = [ImportValue ''cdk-web-static-bucket-name'']"
          "distributionId ciCdProps = [ImportValue ''cdk-web-static-distribution-id'']"
    by (simp_all add: ciCdProps_def entry_keys)
  have e: "env ciCdProps = Some \<lparr>account = Some accountId, region = Some region'\<rparr>"
    by (simp add: ciCdProps_def)
  have n: "length (projects (declared ciCdStack)) = 1"
    by (simp add: projects_ciCdStack)
  have a: "buildActionProjects (declared ciCdStack) = projects (declared ciCdStack)"
    unfolding projects_ciCdStack
    unfolding ciCdStack_def CiCdStack_with_env [OF e] bind_children
    by (simp add: declared_def buildActionProjects_def pipelineActions_def pipelines_def)
       (simp add: ciCdProps_def)
  have r: "map (\<lambda>p. map resources (filter namesImport (rolePolicy p))) (projects (declared ciCdStack))
             = map (map resources) (map (\<lambda>p. filter namesImport (rolePolicy p)) (projects (declared ciCdStack)))"
    by simp
  show ?thesis
    unfolding r namesImport_ciCdStack postBuild_ciCdStack
    using n a
    by (simp add: k entry_keys exports_StaticSiteStack exports_staticSiteStack ciCdStack_def)
qed

text \<open>
  C10. The bucket is named with the primary domain itself, and the value the hosting
  stack exports under the bucket-name key is that domain string, not an identifier derived
  from the resource prefix (the second export is the distribution's identifier). At the
  entry point the pipeline's sync command imports the bucket-name key, so with the imports
  resolved against the hosting stack's exports the sync destination is the primary domain.
\<close>

theorem bucket_named_by_domain:
  \<open>map bucketName (buckets (StaticSiteStack id' props)) = [domainName props]
   \<and> exports (StaticSiteStack id' props) =
       [(staticSiteBucketNameOutputId props, [Lit (domainName props)]),
        (staticSiteDistributionIdOutputId props,
         [Attr (identifyResource (StaticSiteProps.resourcePrefix props) ''site-distribution'')
            ''DistributionId''])]
   \<and> map_of (exports (StaticSiteStack id' props)) (staticSiteBucketNameOutputId props)
        = Some [Lit (domainName props)]
   \<and> resolveImports (exports staticSiteStack) (bucket ciCdProps) = [Lit (domainName staticSiteProps)]
   \<and> map (\<lambda>x. map (resolveImports (exports staticSiteStack)) (commands (post_build (buildSpec x))))
         (projects (declared ciCdStack)) =
       [[[Lit ''aws s3 sync "dist" "s3://'', Lit (domainName staticSiteProps), Lit ''" --delete''],
         [Lit ''aws cloudfront create-invalidation --distribution-id '',
          Attr ''cdk-web-static-site-distribution'' ''DistributionId'',
          Lit '' --paths "/*"'']]]\<close>
proof -
  have x: "exports staticSiteStack =
             [(''cdk-web-static-bucket-name'', [Lit ''<<YOUR_DOMAIN_NAME>>'']),
              (''cdk-web-static-distribution-id'',
               [Attr ''cdk-web-static-site-distribution'' ''DistributionId''])]"
    unfolding staticSiteStack_def exports_StaticSiteStack
    by (simp add: staticSiteProps_def STATIC_SITE_BUCKET_NAME_OUTPUT_ID_def
        STATIC_SITE_DISTRIBUTION_ID_OUTPUT_ID_def staticSiteResourcePrefix_def identifyResource_def)
  have d: "domainName staticSiteProps = ''<<YOUR_DOMAIN_NAME>>''"
    by (simp add: staticSiteProps_def)
  have b: "bucket ciCdProps = [ImportValue ''cdk-web-static-bucket-name'']"
    by (simp add: ciCdProps_def staticSiteBucket_def Fn_importValue_def
        STATIC_SITE_BUCKET_NAME_OUTPUT_ID_def staticSiteResourcePrefix_def identifyResource_def)
  have i: "staticSiteDistributionId = [ImportValue ''cdk-web-static-distribution-id'']"
          "staticSiteBucket = [ImportValue ''cdk-web-static-bucket-name'']"
    by (simp_all add: staticSiteDistributionId_def staticSiteBucket_def Fn_importValue_def
        STATIC_SITE_BUCKET_NAME_OUTPUT_ID_def STATIC_SITE_DISTRIBUTION_ID_OUTPUT_ID_def
        staticSiteResourcePrefix_def identifyResource_def)
  have r: "resolveImports (exports staticSiteStack) (bucket ciCdProps) = [Lit (domainName staticSiteProps)]"
    unfolding x d b by (simp add: resolveImports_def)
  have c: \<open>map (\<lambda>x. map (resolveImports (exports staticSiteStack)) (commands (post_build (buildSpec x))))
             (projects (declared ciCdStack)) =
           [[[Lit ''aws s3 sync "dist" "s3://'', Lit (domainName staticSiteProps), Lit ''" --delete''],
             [Lit ''aws cloudfront create-invalidation --distribution-id '',
              Attr ''cdk-web-static-site-distribution'' ''DistributionId'',
              Lit '' --paths "/*"'']]]\<close>
    unfolding x d projects_ciCdStack i
    by (simp add: createBuildProject_project resolveImports_def bindBuildAction_def)
  show ?thesis
    using r c by (simp add: buckets_StaticSiteStack exports_StaticSiteStack)
qed

section \<open>Who is granted what\<close>

lemma bucketPolicy_StaticSiteStack:
  "map bucketPolicy (buckets (StaticSiteStack id' props)) =
     [[\<lparr>effect = None,
        actions = [''s3:GetBucket*'', ''s3:List*'', ''s3:DeleteObject*''],
        resources = [[Attr (identifyResource (StaticSiteProps.resourcePrefix props) ''site-bucket'') ''Arn''],
                     [Attr (identifyResource (StaticSiteProps.resourcePrefix props) ''site-bucket'') ''Arn'',
                      Lit ''/*'']],
        principals = [ArnPrincipal
           [Attr ''Custom::S3AutoDeleteObjectsCustomResourceProvider'' ''RoleArn'']]\<rparr>,
       \<lparr>effect = None,
        actions = [''s3:GetObject''],
        resources = [[Attr (identifyResource (StaticSiteProps.resourcePrefix props) ''site-bucket'') ''Arn'',
                      Lit ''/*'']],
        principals = [CanonicalUserPrincipal
           [Attr (identifyResource (StaticSiteProps.resourcePrefix props) ''cloudfront-OAI'')
              ''S3CanonicalUserId'']]\<rparr>]]"
  by (simp add: buckets_StaticSiteStack bucketPolicy_def)

lemma policyReaders_StaticSiteStack:
  "map policyReaders (buckets (StaticSiteStack id' props)) =
     [[CanonicalUserPrincipal
         [Attr (identifyResource (StaticSiteProps.resourcePrefix props) ''cloudfront-OAI'')
            ''S3CanonicalUserId'']]]"
  by (simp add: buckets_StaticSiteStack policyReaders_def bucketPolicy_def allowsGetObject_def
      effect_of_def)

lemma originIdentityPrincipals_StaticSiteStack:
  "originIdentityPrincipals (StaticSiteStack id' props) =
     [CanonicalUserPrincipal
        [Attr (identifyResource (StaticSiteProps.resourcePrefix props) ''cloudfront-OAI'')
           ''S3CanonicalUserId'']]"
  by (simp add: originIdentityPrincipals_def originConfigsOf_StaticSiteStack
      cloudFrontOriginAccessIdentityS3CanonicalUserId_def)

lemma roleReaders_entry:
  "bucketName b = ''<<YOUR_DOMAIN_NAME>>'' \<Longrightarrow>
   roleReaders (exports staticSiteStack) b (declared ciCdStack) = [ProjectRole ''cdk-web-cicd-build'']"
  unfolding exports_staticSiteStack roleReaders_def projects_ciCdStack entry_keys
  by (simp add: createBuildProject_project bindBuildAction_def
      readsObjectsOf_def allowsGetObject_def effect_of_def literalText_def
      resolveImports_def objectsArnText_def projectConstructorPolicy_def artifactAccessPolicy_def
      ciCdResourcePrefix_def identifyResource_def)

lemma bucketName_entry:
  "map bucketName (buckets staticSiteStack) = [''<<YOUR_DOMAIN_NAME>>'']"
  unfolding staticSiteStack_def buckets_StaticSiteStack
  by (simp add: staticSiteProps_def)

lemma policyReaders_entry:
  "map policyReaders (buckets staticSiteStack) =
     [[CanonicalUserPrincipal [Attr ''cdk-web-static-cloudfront-OAI'' ''S3CanonicalUserId'']]]"
  unfolding staticSiteStack_def policyReaders_StaticSiteStack
  by (simp add: staticSiteProps_def staticSiteResourcePrefix_def identifyResource_def)

lemma objectReaders_entry:
  "objectReaders staticSiteStack (declared ciCdStack) =
     [CanonicalUserPrincipal [Attr ''cdk-web-static-cloudfront-OAI'' ''S3CanonicalUserId''],
      ProjectRole ''cdk-web-cicd-build'']"
proof -
  obtain bk where bk: "buckets staticSiteStack = [bk]"
    by (simp add: staticSiteStack_def buckets_StaticSiteStack)
  have n: "bucketName bk = ''<<YOUR_DOMAIN_NAME>>''"
    using bucketName_entry bk by simp
  have r: "policyReaders bk =
             [CanonicalUserPrincipal [Attr ''cdk-web-static-cloudfront-OAI'' ''S3CanonicalUserId'']]"
    using policyReaders_entry bk by simp
  show ?thesis
    unfolding objectReaders_def bk
    by (simp add: r roleReaders_entry [OF n])
qed

lemma originIdentityPrincipals_entry:
  "originIdentityPrincipals staticSiteStack =
     [CanonicalUserPrincipal [Attr ''cdk-web-static-cloudfront-OAI'' ''S3CanonicalUserId'']]"
  unfolding staticSiteStack_def originIdentityPrincipals_StaticSiteStack
  by (simp add: staticSiteProps_def staticSiteResourcePrefix_def identifyResource_def)

text \<open>
  C5 (as the claim stands). At the entry point the execution role of the pipeline's build
  project is among those who may read the objects of the hosting bucket, and it is not
  the distribution's origin-identity principal.
\<close>

theorem build_role_reads_bucket_objects:
  "ProjectRole ''cdk-web-cicd-build'' \<in> set (objectReaders staticSiteStack (declared ciCdStack))
   \<and> ProjectRole ''cdk-web-cicd-build'' \<notin> set (originIdentityPrincipals staticSiteStack)"
  by (simp add: objectReaders_entry originIdentityPrincipals_entry)

text \<open>
  C5 (amended). The storage bucket is declared with public read access off and all public
  access blocked. Its resource policy holds two statements: the one the library adds
  because the bucket is declared with \<open>autoDeleteObjects\<close>, which lets the role of the
  object-deleting custom resource list the bucket and delete its objects, and the one the
  stack adds, which allows \<open>s3:GetObject\<close> on the bucket's objects to the canonical user
  of the distribution's origin access identity. That principal is the only one the
  resource policy lets read objects. Outside the resource policy, the pipeline's build
  role is granted \<open>s3:GetObject\<close> on the same bucket's objects by its own role policy, so
  at the entry point the readers of the bucket's objects are the origin identity and the
  build role.
\<close>

theorem bucket_private_policy_read_by_origin_identity:
  "map publicReadAccess (buckets (StaticSiteStack id' props)) = [False]
   \<and> map blockPublicAccess (buckets (StaticSiteStack id' props)) = [BLOCK_ALL]
   \<and> map bucketPolicy (buckets (StaticSiteStack id' props)) =
       [[\<lparr>effect = None,
          actions = [''s3:GetBucket*'', ''s3:List*'', ''s3:DeleteObject*''],
          resources = [bucketArn (hd (buckets (StaticSiteStack id' props))),
                       arnForObjects (hd (buckets (StaticSiteStack id' props))) ''*''],
          principals = [ArnPrincipal
             [Attr ''Custom::S3AutoDeleteObjectsCustomResourceProvider'' ''RoleArn'']]\<rparr>,
         \<lparr>effect = None,
          actions = [''s3:GetObject''],
          resources = [arnForObjects (hd (buckets (StaticSiteStack id' props))) ''*''],
          principals = originIdentityPrincipals (StaticSiteStack id' props)\<rparr>]]
   \<and> map policyReaders (buckets (StaticSiteStack id' props))
        = [originIdentityPrincipals (StaticSiteStack id' props)]
   \<and> originIdentityPrincipals (StaticSiteStack id' props)
        = [CanonicalUserPrincipal
             [Attr (identifyResource (StaticSiteProps.resourcePrefix props) ''cloudfront-OAI'')
                ''S3CanonicalUserId'']]
   \<and> objectReaders staticSiteStack (declared ciCdStack)
        = originIdentityPrincipals staticSiteStack @ [ProjectRole ''cdk-web-cicd-build'']"
proof -
  have a: "bucketArn (hd (buckets (StaticSiteStack id' props))) =
             [Attr (identifyResource (StaticSiteProps.resourcePrefix props) ''site-bucket'') ''Arn'']"
          "arnForObjects (hd (buckets (StaticSiteStack id' props))) ''*'' =
             [Attr (identifyResource (StaticSiteProps.resourcePrefix props) ''site-bucket'') ''Arn'',
              Lit ''/*'']"
    by (simp_all add: buckets_StaticSiteStack bucketArn_def arnForObjects_def)
  have f: "map publicReadAccess (buckets (StaticSiteStack id' props)) = [False]"
          "map blockPublicAccess (buckets (StaticSiteStack id' props)) = [BLOCK_ALL]"
    by (simp_all add: buckets_StaticSiteStack)
  show ?thesis
    unfolding a bucketPolicy_StaticSiteStack policyReaders_StaticSiteStack
      originIdentityPrincipals_StaticSiteStack objectReaders_entry originIdentityPrincipals_entry
    using f by simp
qed

text \<open>
  C6 (as the claim stands). At the entry point the policy of the build project's role
  has seven statements, not two.
\<close>

theorem build_role_has_seven_statements:
  "map length (map rolePolicy (projects (declared ciCdStack))) = [7]
   \<and> map length (map rolePolicy (projects (declared ciCdStack))) \<noteq> [2]"
  unfolding rolePolicy_ciCdStack
  by (simp add: projectConstructorPolicy_def artifactAccessPolicy_def)

text \<open>
  C6 (amended). The source adds exactly two statements to the build project's role,
  after the two the library's project constructor attaches: an ALLOW of the six S3
  actions (get, put and delete object, put object ACL, list bucket, bucket location) on
  the ARN of the given bucket and on its objects, and an ALLOW of
  \<open>cloudfront:CreateInvalidation\<close> on the ARN of the given distribution in the given
  account. At the entry point the role's policy is these four statements followed by the
  three the library attaches when the build action joins the pipeline; the two statements
  of the source are the only ones that name the hosting stack's bucket or distribution,
  with the imports resolved their resources are the ARN of that bucket, of its objects and
  of that distribution, and no resource of any of the seven statements is the wildcard.
\<close>

theorem build_role_source_statements_scoped:
  "rolePolicy (fst (createBuildProject p d b m a)) =
     projectConstructorPolicy (identifyResource p ''build'') @
     [\<lparr>effect = Some ALLOW,
       actions = [''s3:GetObject'', ''s3:GetBucketLocation'', ''s3:ListBucket'',
                  ''s3:PutObject'', ''s3:DeleteObject'', ''s3:PutObjectAcl''],
       resources = [Lit ''arn:aws:s3:::'' # b, Lit ''arn:aws:s3:::'' # b @ [Lit ''/*'']],
       principals = []\<rparr>,
      \<lparr>effect = Some ALLOW,
       actions = [''cloudfront:CreateInvalidation''],
       resources = [Lit (''arn:aws:cloudfront::'' @ a @ '':distribution/'') # d],
       principals = []\<rparr>]
   \<and> length (projectConstructorPolicy (identifyResource p ''build'')) = 2
   \<and> map rolePolicy (projects (declared ciCdStack)) =
       [rolePolicy (fst (createBuildProject ciCdResourcePrefix (distributionId ciCdProps)
                           (bucket ciCdProps) (buildAlertEmail ciCdProps) accountId))
        @ artifactAccessPolicy (identifyResource ciCdResourcePrefix ''pipeline'')]
   \<and> length (artifactAccessPolicy (identifyResource ciCdResourcePrefix ''pipeline'')) = 3
   \<and> map (\<lambda>p. filter namesImport (rolePolicy p)) (projects (declared ciCdStack)) =
       [[\<lparr>effect = Some ALLOW,
          actions = [''s3:GetObject'', ''s3:GetBucketLocation'', ''s3:ListBucket'',
                     ''s3:PutObject'', ''s3:DeleteObject'', ''s3:PutObjectAcl''],
          resources = [Lit ''arn:aws:s3:::'' # bucket ciCdProps,
                       Lit ''arn:aws:s3:::'' # bucket ciCdProps @ [Lit ''/*'']],
          principals = []\<rparr>,
         \<lparr>effect = Some ALLOW,
          actions = [''cloudfront:CreateInvalidation''],
          resources = [Lit ''arn:aws:cloudfront::<<YOUR_ACCOUNT_ID>>:distribution/''
                         # distributionId ciCdProps],
          principals = []\<rparr>]]
   \<and> map (\<lambda>p. map (\<lambda>s. map (resolveImports (exports staticSiteStack)) (resources s))
                   (filter namesImport (rolePolicy p)))
         (projects (declared ciCdStack)) =
       [[[[Lit ''arn:aws:s3:::'', Lit (domainName staticSiteProps)],
          [Lit ''arn:aws:s3:::'', Lit (domainName staticSiteProps), Lit ''/*'']],
         [[Lit ''arn:aws:cloudfront::<<YOUR_ACCOUNT_ID>>:distribution/'',
           Attr ''cdk-web-static-site-distribution'' ''DistributionId'']]]]
   \<and> map (\<lambda>p. filter (\<lambda>r. literalText r = Some ''*'') (concat (map resources (rolePolicy p))))
         (projects (declared ciCdStack)) = [[]]"
proof -
  have k: "bucket ciCdProps = [ImportValue ''cdk-web-static-bucket-name'']"
          "distributionId ciCdProps = [ImportValue ''cdk-web-static-distribution-id'']"
          "buildAlertEmail ciCdProps = ''<<YOUR_EMAIL_ADDRESS>>>''"
          "domainName staticSiteProps = ''<<YOUR_DOMAIN_NAME>>''"
    by (simp_all add: ciCdProps_def entry_keys staticSiteProps_def)
  have c1: "rolePolicy (fst (createBuildProject p d b m a)) =
     projectConstructorPolicy (identifyResource p ''build'') @
     [\<lparr>effect = Some ALLOW,
       actions = [''s3:GetObject'', ''s3:GetBucketLocation'', ''s3:ListBucket'',
                  ''s3:PutObject'', ''s3:DeleteObject'', ''s3:PutObjectAcl''],
       resources = [Lit ''arn:aws:s3:::'' # b, Lit ''arn:aws:s3:::'' # b @ [Lit ''/*'']],
       principals = []\<rparr>,
      \<lparr>effect = Some ALLOW,
       actions = [''cloudfront:CreateInvalidation''],
       resources = [Lit (''arn:aws:cloudfront::'' @ a @ '':distribution/'') # d],
       principals = []\<rparr>]" for p d b m a
    by (simp add: createBuildProject_project)
  have c3: "map rolePolicy (projects (declared ciCdStack)) =
       [rolePolicy (fst (createBuildProject ciCdResourcePrefix (distributionId ciCdProps)
                           (bucket ciCdProps) (buildAlertEmail ciCdProps) accountId))
        @ artifactAccessPolicy (identifyResource ciCdResourcePrefix ''pipeline'')]"
    unfolding k projects_ciCdStack entry_keys by (simp add: bindBuildAction_def)
  have c5: "map (\<lambda>p. map (\<lambda>s. map (resolveImports ex) (resources s))
                   (filter namesImport (rolePolicy p)))
         (projects (declared ciCdStack)) =
       map (map (\<lambda>s. map (resolveImports ex) (resources s)))
           (map (\<lambda>p. filter namesImport (rolePolicy p)) (projects (declared ciCdStack)))" for ex
    by simp
  have c6: "map (\<lambda>p. filter (\<lambda>r. literalText r = Some ''*'') (concat (map resources (rolePolicy p))))
         (projects (declared ciCdStack)) =
       map (\<lambda>ps. filter (\<lambda>r. literalText r = Some ''*'') (concat (map resources ps)))
           (map rolePolicy (projects (declared ciCdStack)))"
    by simp
  have w: "map (\<lambda>p. filter (\<lambda>r. literalText r = Some ''*'') (concat (map resources (rolePolicy p))))
         (projects (declared ciCdStack)) = [[]]"
    unfolding c6 rolePolicy_ciCdStack
    by (simp add: projectConstructorPolicy_def artifactAccessPolicy_def literalText_def)
  have r: "map (\<lambda>p. map (\<lambda>s. map (resolveImports (exports staticSiteStack)) (resources s))
                   (filter namesImport (rolePolicy p)))
         (projects (declared ciCdStack)) =
       [[[[Lit ''arn:aws:s3:::'', Lit (domainName staticSiteProps)],
          [Lit ''arn:aws:s3:::'', Lit (domainName staticSiteProps), Lit ''/*'']],
         [[Lit ''arn:aws:cloudfront::<<YOUR_ACCOUNT_ID>>:distribution/'',
           Attr ''cdk-web-static-site-distribution'' ''DistributionId'']]]]"
    unfolding exports_staticSiteStack k
    unfolding c5 namesImport_ciCdStack
    by (simp add: resolveImports_def)
  have n: "map (\<lambda>p. filter namesImport (rolePolicy p)) (projects (declared ciCdStack)) =
       [[\<lparr>effect = Some ALLOW,
          actions = [''s3:GetObject'', ''s3:GetBucketLocation'', ''s3:ListBucket'',
                     ''s3:PutObject'', ''s3:DeleteObject'', ''s3:PutObjectAcl''],
          resources = [Lit ''arn:aws:s3:::'' # bucket ciCdProps,
                       Lit ''arn:aws:s3:::'' # bucket ciCdProps @ [Lit ''/*'']],
          principals = []\<rparr>,
         \<lparr>effect = Some ALLOW,
          actions = [''cloudfront:CreateInvalidation''],
          resources = [Lit ''arn:aws:cloudfront::<<YOUR_ACCOUNT_ID>>:distribution/''
                         # distributionId ciCdProps],
          principals = []\<rparr>]]"
    unfolding namesImport_ciCdStack k by simp
  have l: "length (projectConstructorPolicy (identifyResource p ''build'')) = 2"
          "length (artifactAccessPolicy (identifyResource ciCdResourcePrefix ''pipeline'')) = 3"
    by (simp_all add: projectConstructorPolicy_def artifactAccessPolicy_def)
  from c1 [of p d b m a] l c3 n r w show ?thesis
    by blast
qed

end
